theory Spec2Isabelle
  imports Main
begin

section \<open>Errors\<close>

text \<open>
  Go's \<open>error\<close> interface, restricted to the dynamic types the two packages tell apart.
  A \<open>nil\<close> error is \<open>None\<close> of \<open>error option\<close>.
  \<^item> \<open>ErrorString msg\<close>: an error known only by its message (\<open>errors.New\<close>, an I/O error
    of a writer, a start failure of \<open>os/exec\<close>, ...);
  \<^item> \<open>NotExistError path\<close>: the error of \<open>os.Stat\<close> for which \<open>os.IsNotExist\<close> holds;
  \<^item> \<open>ExitError state stderr\<close>: \<open>*exec.ExitError\<close>, with the text of its process state
    (what its \<open>Error()\<close> prints) and its \<open>Stderr\<close> field;
  \<^item> \<open>NoPRFoundError msg\<close>: \<open>*github.NoPRFoundError\<close>;
  \<^item> \<open>WrapError msg err\<close>: the result of \<open>fmt.Errorf\<close> with a \<open>%w\<close> verb: the formatted
    message and the wrapped error.
\<close>

datatype error =
    ErrorString string
  | NotExistError string
  | ExitError string string
  | NoPRFoundError string
  | WrapError string error

text \<open>The \<open>Error()\<close> method.\<close>

fun Error :: "error \<Rightarrow> string" where
  "Error (ErrorString msg) = msg"
| "Error (NotExistError path) = ''stat '' @ path @ '': no such file or directory''"
| "Error (ExitError state stderr) = state"
| "Error (NoPRFoundError msg) = msg"
| "Error (WrapError msg err) = msg"

section \<open>Package executor\<close>

subsection \<open>The world outside the function\<close>

text \<open>
  The state of everything outside the program (file system, processes, terminal) is a
  value of an arbitrary type \<open>'w\<close>; every call that leaves the program takes the state and
  returns the new one with its result. An \<open>io.Writer\<close> is its \<open>Write\<close> method, of which
  the code only reads the error.
\<close>

type_synonym 'w Writer = "string \<Rightarrow> 'w \<Rightarrow> error option \<times> 'w"

text \<open>
  \<open>exec.Cmd\<close>, with the fields the code sets. \<open>exec.Command(name, args...)\<close> stores the
  program and the argument vector, whose element 0 is the program's name.
\<close>

record 'w Cmd =
  Path :: string
  Args :: "string list"
  Dir :: string
  Stdout :: "'w Writer option"
  Stderr :: "'w Writer option"

definition exec_Command :: "string \<Rightarrow> string list \<Rightarrow> 'w Cmd" where
  "exec_Command name args =
     \<lparr>Path = name, Args = name # args, Dir = [], Stdout = None, Stderr = None\<rparr>"

text \<open>
  The methods of \<open>exec.Cmd\<close> the code calls. What they return is decided by the
  operating system and the program run, so they are parameters of the model:
  \<open>Start\<close> and \<open>Wait\<close> return an error or \<open>nil\<close>, \<open>Output\<close> returns the bytes
  of standard output with an error or \<open>nil\<close>.
\<close>

record 'w Exec =
  Start :: "'w Cmd \<Rightarrow> 'w \<Rightarrow> error option \<times> 'w"
  Wait :: "'w Cmd \<Rightarrow> 'w \<Rightarrow> error option \<times> 'w"
  Output :: "'w Cmd \<Rightarrow> 'w \<Rightarrow> (string \<times> error option) \<times> 'w"

text \<open>
  The calls a run makes to the outside, in order, each with what it returned.
\<close>

datatype 'w call =
    Call_Write string "error option"
  | Call_Start "'w Cmd" "error option"
  | Call_Wait "'w Cmd" "error option"
  | Call_Output "'w Cmd" string "error option"

subsection \<open>Formatting\<close>

text \<open>
  The operands of \<open>fmt.Fprintln\<close> the code uses: strings and one slice of strings.
  \<open>Fprintln\<close> formats each operand with its default format (a slice of strings as
  \<open>[a b c]\<close>), puts a space between operands, appends a newline and writes the line
  to the writer in one call.
\<close>

datatype operand = Str string | Strs "string list"

fun join_sp :: "string list \<Rightarrow> string" where
  "join_sp [] = []"
| "join_sp [s] = s"
| "join_sp (s # t # ss) = s @ '' '' @ join_sp (t # ss)"

fun format_operand :: "operand \<Rightarrow> string" where
  "format_operand (Str s) = s"
| "format_operand (Strs ss) = ''['' @ join_sp ss @ '']''"

definition Sprintln :: "operand list \<Rightarrow> string" where
  "Sprintln ops = join_sp (map format_operand ops) @ [CHR 0x0A]"

definition Fprintln :: "'w Writer \<Rightarrow> operand list \<Rightarrow> 'w \<Rightarrow> (error option \<times> 'w call list) \<times> 'w" where
  "Fprintln output ops w =
     (case output (Sprintln ops) w of
        (err, w') \<Rightarrow> ((err, [Call_Write (Sprintln ops) err]), w'))"

subsection \<open>summarizedArgs\<close>

text \<open>
  The loop of \<open>summarizedArgs\<close> over \<open>args\<close>, with the slice \<open>result\<close> it appends to.
  \<open>len(arg)\<close> is the number of bytes of the string; a \<open>string\<close> here is a list of
  bytes, so \<open>length arg\<close> is the same number.
\<close>

fun summarizedArgs_loop :: "string list \<Rightarrow> string list \<Rightarrow> string list" where
  "summarizedArgs_loop [] result = result"
| "summarizedArgs_loop (arg # args) result =
     (if length arg > 30
      then summarizedArgs_loop args (result @ [''...''])
      else summarizedArgs_loop args (result @ [arg]))"

definition summarizedArgs :: "string list \<Rightarrow> string list" where
  "summarizedArgs args = summarizedArgs_loop args []"

subsection \<open>RealExecutor\<close>

record RealExecutor =
  Verbose :: bool

definition NewRealExecutor :: RealExecutor where
  "NewRealExecutor = \<lparr>Verbose = True\<rparr>"


text \<open>
  The trace line both methods write when \<open>Verbose\<close> is set.
\<close>

definition trace_operands :: "string \<Rightarrow> string list \<Rightarrow> string \<Rightarrow> operand list" where
  "trace_operands name args workingDir =
     [Str ''Executing:'', Str name, Strs (summarizedArgs args), Str ''in'', Str workingDir]"

text \<open>
  \<open>Execute\<close> returns its error, the calls it made and the new state of the world.
\<close>

definition Execute ::
  "RealExecutor \<Rightarrow> 'w Exec \<Rightarrow> 'w Writer \<Rightarrow> string \<Rightarrow> string \<Rightarrow> string list \<Rightarrow> 'w
     \<Rightarrow> (error option \<times> 'w call list) \<times> 'w" where
  "Execute e ex output workingDir name args w =
     (let command = exec_Command name args;
          command = command\<lparr>Dir := workingDir\<rparr>;
          command = command\<lparr>Stdout := Some output\<rparr>;
          command = command\<lparr>Stderr := Some output\<rparr>;
          ((werr, t1), w1) =
            (if Verbose e then Fprintln output (trace_operands name args workingDir) w
             else ((None, []), w))
      in case werr of
           Some err \<Rightarrow> ((Some err, t1), w1)
         | None \<Rightarrow>
             (case Start ex command w1 of
                (Some err, w2) \<Rightarrow> ((Some err, t1 @ [Call_Start command (Some err)]), w2)
              | (None, w2) \<Rightarrow>
                  (case Wait ex command w2 of
                     (Some err, w3) \<Rightarrow>
                       ((Some err,
                         t1 @ [Call_Start command None, Call_Wait command (Some err)]), w3)
                   | (None, w3) \<Rightarrow>
                       ((None, t1 @ [Call_Start command None, Call_Wait command None]), w3))))"

text \<open>
  \<open>fmt.Errorf("error: %w. Stderr: %s", exitErr, stdErr)\<close>: the message with both verbs
  filled in, wrapping \<open>exitErr\<close>.
\<close>

definition Errorf_exit :: "error \<Rightarrow> string \<Rightarrow> error" where
  "Errorf_exit exitErr stdErr =
     WrapError (''error: '' @ Error exitErr @ ''. Stderr: '' @ stdErr) exitErr"

text \<open>
  \<open>ExecuteAndCapture\<close> returns its text, its error, the calls it made and the new
  state of the world. The type assertion \<open>err.(*exec.ExitError)\<close> is the case
  distinction on the constructor.
\<close>

definition ExecuteAndCapture ::
  "RealExecutor \<Rightarrow> 'w Exec \<Rightarrow> 'w Writer \<Rightarrow> string \<Rightarrow> string \<Rightarrow> string list \<Rightarrow> 'w
     \<Rightarrow> ((string \<times> error option) \<times> 'w call list) \<times> 'w" where
  "ExecuteAndCapture e ex output workingDir name args w =
     (let command = exec_Command name args;
          command = command\<lparr>Dir := workingDir\<rparr>;
          ((werr, t1), w1) =
            (if Verbose e then Fprintln output (trace_operands name args workingDir) w
             else ((None, []), w))
      in case werr of
           Some err \<Rightarrow> ((('''', Some err), t1), w1)
         | None \<Rightarrow>
             (case Output ex command w1 of
                ((commandOutput, Some err), w2) \<Rightarrow>
                  (case err of
                     ExitError state stdErr \<Rightarrow>
                       (((stdErr, Some (Errorf_exit (ExitError state stdErr) stdErr)),
                         t1 @ [Call_Output command commandOutput (Some err)]), w2)
                   | _ \<Rightarrow>
                       (((commandOutput, Some err),
                         t1 @ [Call_Output command commandOutput (Some err)]), w2))
              | ((commandOutput, None), w2) \<Rightarrow>
                  (((commandOutput, None),
                    t1 @ [Call_Output command commandOutput None]), w2)))"

section \<open>Package update_prs\<close>

subsection \<open>Campaign data and the collaborators\<close>

text \<open>
  Packages \<open>campaign\<close>, \<open>github\<close>, \<open>prompt\<close>, \<open>logging\<close> and \<open>colors\<close> are
  collaborators of \<open>update_prs\<close>. Of a repository the code reads \<open>FullRepoName\<close> and
  calls \<open>FullRepoPath()\<close>, which is a parameter below; of a campaign it reads \<open>Name\<close>
  and \<open>Repos\<close>.
\<close>

record Repo =
  FullRepoName :: string

record Campaign =
  Name :: string
  Repos :: "Repo list"

text \<open>
  The calls to the outside, as functions of the state of the world:
  \<open>campaign.OpenCampaign()\<close>, \<open>repo.FullRepoPath()\<close> (pure), \<open>p.AskConfirm(question)\<close>,
  \<open>os.Stat(path)\<close> (the code only reads its error) and
  \<open>gh.ClosePullRequest(writer, path, name)\<close> (the writer is the activity's, part of the
  world).
\<close>

record 'w System =
  OpenCampaign :: "'w \<Rightarrow> (error + Campaign) \<times> 'w"
  FullRepoPath :: "Repo \<Rightarrow> string"
  AskConfirm :: "string \<Rightarrow> 'w \<Rightarrow> bool \<times> 'w"
  Stat :: "string \<Rightarrow> 'w \<Rightarrow> error option \<times> 'w"
  ClosePullRequest :: "string \<Rightarrow> string \<Rightarrow> 'w \<Rightarrow> error option \<times> 'w"

text \<open>\<open>os.IsNotExist(err)\<close>; it is false of \<open>nil\<close>.\<close>

fun os_IsNotExist :: "error option \<Rightarrow> bool" where
  "os_IsNotExist (Some (NotExistError path)) = True"
| "os_IsNotExist _ = False"

text \<open>
  What a run does that can be seen from outside, in order: the calls to the logger and
  its activities (an activity is named by the message it was started with), with the
  arguments of the \<open>colors\<close> functions kept as they are passed, and the calls to the
  prompt, to \<open>os.Stat\<close> and to \<open>gh\<close>, each with what it returned.
\<close>

datatype val = IntV int | StrV string

datatype colored = Normal | Green "val list" | Yellow "val list" | Red "val list"

datatype event =
    StartActivity string
  | EndWithSuccess string
  | EndWithFailure string error
  | EndWithWarning string error
  | EndWithWarningf string string
  | Successf string "colored list"
  | Warnf string "colored list"
  | Errorf string error
  | Call_AskConfirm string bool
  | Call_Stat string "error option"
  | Call_ClosePullRequest string string "error option"

subsection \<open>Flag validation\<close>

text \<open>
  \<open>onlyOne\<close> counts its arguments in a map from \<open>bool\<close> to \<open>int\<close> that holds both keys
  from the start, here a function. A counter is at most \<open>len(args)\<close>, which is an
  \<open>int\<close> of Go, so it cannot wrap around.
\<close>

fun onlyOne_loop :: "bool list \<Rightarrow> (bool \<Rightarrow> int) \<Rightarrow> (bool \<Rightarrow> int)" where
  "onlyOne_loop [] b = b"
| "onlyOne_loop (v # args) b = onlyOne_loop args (b(v := b v + 1))"

definition onlyOne :: "bool list \<Rightarrow> bool" where
  "onlyOne args =
     (let b = (\<lambda>_. 0)(False := 0, True := 0);
          b = onlyOne_loop args b
      in b True = 1)"

definition validateFlags :: "bool \<Rightarrow> error option" where
  "validateFlags closeFlag =
     (if \<not> onlyOne [closeFlag]
      then Some (ErrorString ''update-prs needs one and only one action flag'')
      else None)"

subsection \<open>runClose\<close>

record Counts =
  doneCount :: int
  skippedCount :: int
  errorCount :: int

text \<open>
  The state of the loop of \<open>runClose\<close>: the three counters, what has been seen so far,
  and the world.
\<close>

type_synonym 'w loop_state = "(Counts \<times> event list) \<times> 'w"

text \<open>The body of the loop, for one \<open>repo\<close>.\<close>

fun closeBody :: "'w System \<Rightarrow> Campaign \<Rightarrow> Repo \<Rightarrow> 'w loop_state \<Rightarrow> 'w loop_state" where
  "closeBody sys dir repo ((c, log), w) =
       (let closeActivity = ''Closing PR in '' @ FullRepoName repo;
            log = log @ [StartActivity closeActivity];
            (err, w) = Stat sys (FullRepoPath sys repo) w;
            log = log @ [Call_Stat (FullRepoPath sys repo) err]
        in if os_IsNotExist err
           then ((c\<lparr>skippedCount := skippedCount c + 1\<rparr>,
                  log @ [EndWithWarningf closeActivity
                           (''Directory '' @ FullRepoPath sys repo
                              @ '' does not exist - has it been cloned?'')]), w)
           else
             let (err, w) = ClosePullRequest sys (FullRepoPath sys repo) (Name dir) w;
                 log = log @ [Call_ClosePullRequest (FullRepoPath sys repo) (Name dir) err]
             in case err of
                  Some e \<Rightarrow>
                    (case e of
                       NoPRFoundError m \<Rightarrow>
                         ((c\<lparr>skippedCount := skippedCount c + 1\<rparr>,
                           log @ [EndWithWarning closeActivity e]), w)
                     | _ \<Rightarrow>
                         ((c\<lparr>errorCount := errorCount c + 1\<rparr>,
                           log @ [EndWithFailure closeActivity e]), w))
                | None \<Rightarrow>
                    ((c\<lparr>doneCount := doneCount c + 1\<rparr>,
                      log @ [EndWithSuccess closeActivity]), w))"

text \<open>\<open>for _, repo := range dir.Repos\<close>.\<close>

fun closeLoop :: "'w System \<Rightarrow> Campaign \<Rightarrow> Repo list \<Rightarrow> 'w loop_state \<Rightarrow> 'w loop_state" where
  "closeLoop sys dir [] s = s"
| "closeLoop sys dir (repo # repos) s = closeLoop sys dir repos (closeBody sys dir repo s)"

text \<open>The line logged after the loop.\<close>

definition summary :: "Counts \<Rightarrow> event" where
  "summary c =
     (if errorCount c = 0
      then Successf (''turbolift update-prs completed %s(%s, %s)'' @ [CHR 0x0A])
             [Normal, Green [IntV (doneCount c), StrV '' OK''],
              Yellow [IntV (skippedCount c), StrV '' skipped'']]
      else Warnf (''turbolift update-prs completed with %s %s(%s, %s, %s)'' @ [CHR 0x0A])
             [Red [StrV ''errors''], Normal, Green [IntV (doneCount c), StrV '' OK''],
              Yellow [IntV (skippedCount c), StrV '' skipped''],
              Red [IntV (errorCount c), StrV '' errored'']])"

text \<open>
  \<open>runClose\<close>, with the global \<open>yesFlag\<close> as a parameter. It returns nothing in Go; the
  model returns the counters as they are when the function returns (\<open>None\<close> before they
  are declared), what has been seen, and the world.
\<close>

definition runClose :: "'w System \<Rightarrow> bool \<Rightarrow> 'w \<Rightarrow> (Counts option \<times> event list) \<times> 'w" where
  "runClose sys yesFlag w =
     (let readCampaignActivity = ''Reading campaign data'';
          log = [StartActivity readCampaignActivity];
          (r, w) = OpenCampaign sys w
      in case r of
           Inl err \<Rightarrow> ((None, log @ [EndWithFailure readCampaignActivity err]), w)
         | Inr dir \<Rightarrow>
             let log = log @ [EndWithSuccess readCampaignActivity];
                 question = ''Close all PRs from the '' @ Name dir @ '' campaign?'';
                 ((confirmed, log), w) =
                   (if \<not> yesFlag
                    then (case AskConfirm sys question w of
                            (answer, w) \<Rightarrow> ((answer, log @ [Call_AskConfirm question answer]), w))
                    else ((True, log), w))
             in if \<not> confirmed then ((None, log), w)
                else
                  let c = \<lparr>doneCount = 0, skippedCount = 0, errorCount = 0\<rparr>;
                      ((c, log), w) = closeLoop sys dir (Repos dir) ((c, log), w)
                  in ((Some c, log @ [summary c]), w))"

text \<open>\<open>run\<close>, with the globals \<open>closeFlag\<close> and \<open>yesFlag\<close> as parameters.\<close>

definition run :: "'w System \<Rightarrow> bool \<Rightarrow> bool \<Rightarrow> 'w \<Rightarrow> (Counts option \<times> event list) \<times> 'w" where
  "run sys closeFlag yesFlag w =
     (case validateFlags closeFlag of
        Some err \<Rightarrow> ((None, [Errorf ''Error while parsing the flags: %v'' err]), w)
      | None \<Rightarrow> if closeFlag then runClose sys yesFlag w else ((None, []), w))"

section \<open>Reading a run\<close>

text \<open>
  Predicates on the calls and events of a run, used to state what a run did.
\<close>







fun is_NoPRFoundError :: "error \<Rightarrow> bool" where
  "is_NoPRFoundError (NoPRFoundError m) = True"
| "is_NoPRFoundError _ = False"

fun is_StartActivity :: "event \<Rightarrow> bool" where
  "is_StartActivity (StartActivity a) = True"
| "is_StartActivity _ = False"

fun is_AskConfirm :: "event \<Rightarrow> bool" where
  "is_AskConfirm (Call_AskConfirm question answer) = True"
| "is_AskConfirm _ = False"

text \<open>The two calls that log the line after the loop.\<close>

fun is_summary :: "event \<Rightarrow> bool" where
  "is_summary (Successf f as) = True"
| "is_summary (Warnf f as) = True"
| "is_summary _ = False"

definition total :: "Counts \<Rightarrow> int" where
  "total c = doneCount c + skippedCount c + errorCount c"

section \<open>Example environments\<close>

text \<open>
  Concrete writers, processes and a campaign, on which the model is run. The world has
  no state of its own here (\<open>unit\<close>).
\<close>

definition closed_writer :: "unit Writer" where
  "closed_writer line w = (Some (ErrorString ''write: file already closed''), w)"


definition exits_zero :: "unit Exec" where
  "exits_zero =
     \<lparr>Start = (\<lambda>cmd w. (None, w)),
      Wait = (\<lambda>cmd w. (None, w)),
      Output = (\<lambda>cmd w. ((''https://github.com/org/repo/pull/1'', None), w))\<rparr>"



text \<open>
  A campaign of four repositories: \<open>org/A\<close> has no clone, closing succeeds in \<open>org/B\<close>,
  fails in \<open>org/C\<close> and finds no pull request in \<open>org/D\<close>. The user, when asked,
  declines.
\<close>

definition rename_foo :: Campaign where
  "rename_foo =
     \<lparr>Name = ''rename-foo'',
      Repos = [\<lparr>FullRepoName = ''org/A''\<rparr>, \<lparr>FullRepoName = ''org/B''\<rparr>,
               \<lparr>FullRepoName = ''org/C''\<rparr>, \<lparr>FullRepoName = ''org/D''\<rparr>]\<rparr>"

definition example_system :: "unit System" where
  "example_system =
     \<lparr>OpenCampaign = (\<lambda>w. (Inr rename_foo, w)),
      FullRepoPath = (\<lambda>repo. ''work/'' @ FullRepoName repo),
      AskConfirm = (\<lambda>question w. (False, w)),
      Stat = (\<lambda>path w. (if path = ''work/org/A'' then Some (NotExistError path) else None, w)),
      ClosePullRequest = (\<lambda>path name w.
        (if path = ''work/org/C'' then Some (ErrorString ''exit status 1'')
         else if path = ''work/org/D'' then Some (NoPRFoundError ''no PR found'')
         else None, w))\<rparr>"

section \<open>Properties of the executor\<close>







lemma Execute_write_fails:
  assumes "Verbose e"
    and "output (Sprintln (trace_operands name args workingDir)) w = (Some err, w1)"
  shows "Execute e ex output workingDir name args w
           = ((Some err, [Call_Write (Sprintln (trace_operands name args workingDir)) (Some err)]), w1)"
  using assms by (simp add: Execute_def Let_def Fprintln_def)

lemma ExecuteAndCapture_write_fails:
  assumes "Verbose e"
    and "output (Sprintln (trace_operands name args workingDir)) w = (Some err, w1)"
  shows "ExecuteAndCapture e ex output workingDir name args w
           = ((([], Some err), [Call_Write (Sprintln (trace_operands name args workingDir)) (Some err)]), w1)"
  using assms by (simp add: ExecuteAndCapture_def Let_def Fprintln_def)











text \<open>
  Claim C9. With \<open>Verbose\<close> set, when the write of the trace line returns an error, both
  \<open>Execute\<close> and \<open>ExecuteAndCapture\<close> return that error (\<open>ExecuteAndCapture\<close> with the
  empty text), the write is the only call they make, so no process is started, and the
  world is as the write left it.
\<close>

theorem trace_write_error_prevents_process:
  assumes "Verbose e"
    and "output (Sprintln (trace_operands name args workingDir)) w = (Some err, w1)"
  shows "Execute e ex output workingDir name args w
           = ((Some err,
               [Call_Write (Sprintln (trace_operands name args workingDir)) (Some err)]), w1)
       \<and> ExecuteAndCapture e ex output workingDir name args w
           = ((([], Some err),
               [Call_Write (Sprintln (trace_operands name args workingDir)) (Some err)]), w1)"
  using assms by (simp add: Execute_write_fails ExecuteAndCapture_write_fails)

text \<open>
  The theorem at a verbose executor and a writer that is closed.
\<close>

theorem trace_write_error_prevents_process_witness:
  "Verbose NewRealExecutor
   \<and> closed_writer (Sprintln (trace_operands ''gh'' [''pr'', ''close''] ''work/org/repo'')) ()
       = (Some (ErrorString ''write: file already closed''), ())
   \<and> Execute NewRealExecutor exits_zero closed_writer ''work/org/repo'' ''gh'' [''pr'', ''close''] ()
     = ((Some (ErrorString ''write: file already closed''),
         [Call_Write (''Executing: gh [pr close] in work/org/repo'' @ [CHR 0x0A])
            (Some (ErrorString ''write: file already closed''))]), ())
   \<and> ExecuteAndCapture NewRealExecutor exits_zero closed_writer ''work/org/repo'' ''gh''
         [''pr'', ''close''] ()
     = ((([], Some (ErrorString ''write: file already closed'')),
         [Call_Write (''Executing: gh [pr close] in work/org/repo'' @ [CHR 0x0A])
            (Some (ErrorString ''write: file already closed''))]), ())"
  using trace_write_error_prevents_process
    [of NewRealExecutor closed_writer "''gh''" "[''pr'', ''close'']" "''work/org/repo''" "()"
        "ErrorString ''write: file already closed''" "()" exits_zero]
  by (simp add: NewRealExecutor_def closed_writer_def Sprintln_def trace_operands_def
        summarizedArgs_def)



section \<open>Properties of update-prs\<close>

lemma onlyOne_loop_True:
  "onlyOne_loop args b True = b True + int (count_list args True)"
  by (induction args arbitrary: b) auto

text \<open>
  Claim C6. \<open>onlyOne\<close> holds of a list of flags exactly when one flag of the list is
  true, so it fails when none is and when two or more are; \<open>validateFlags\<close> returns
  \<open>nil\<close> exactly when that holds of the list of its flag, and the error
  \<open>update-prs needs one and only one action flag\<close> otherwise.
\<close>

theorem onlyOne_exactly_one_flag:
  "(onlyOne args \<longleftrightarrow> count_list args True = 1)
   \<and> validateFlags closeFlag =
       (if count_list [closeFlag] True = 1 then None
        else Some (ErrorString ''update-prs needs one and only one action flag''))"
  by (simp add: onlyOne_def validateFlags_def Let_def onlyOne_loop_True)

text \<open>
  The theorem at lists with no, one and two true flags, and at both values of the flag of
  \<open>validateFlags\<close>.
\<close>

theorem onlyOne_exactly_one_flag_witness:
  "\<not> onlyOne [] \<and> \<not> onlyOne [False, False] \<and> onlyOne [False, True, False]
   \<and> \<not> onlyOne [True, False, True]
   \<and> validateFlags True = None
   \<and> validateFlags False = Some (ErrorString ''update-prs needs one and only one action flag'')"
  using onlyOne_exactly_one_flag [of "[]" True] onlyOne_exactly_one_flag [of "[False, False]" False]
    onlyOne_exactly_one_flag [of "[False, True, False]" True]
    onlyOne_exactly_one_flag [of "[True, False, True]" True]
  by simp

lemma run_validates_first:
  "run sys False yesFlag w =
     ((None, [Errorf ''Error while parsing the flags: %v''
                (ErrorString ''update-prs needs one and only one action flag'')]), w)"
  "run sys True yesFlag w = runClose sys yesFlag w"
  by (simp_all add: run_def validateFlags_def onlyOne_def)

lemma closeBody_unfold:
  assumes "Stat sys (FullRepoPath sys repo) w = (serr, w1)"
    and "ClosePullRequest sys (FullRepoPath sys repo) (Name dir) w1 = (cerr, w2)"
  shows "closeBody sys dir repo ((c, log), w) =
     (if os_IsNotExist serr
      then ((c\<lparr>skippedCount := skippedCount c + 1\<rparr>,
             log @ [StartActivity (''Closing PR in '' @ FullRepoName repo),
                    Call_Stat (FullRepoPath sys repo) serr,
                    EndWithWarningf (''Closing PR in '' @ FullRepoName repo)
                      (''Directory '' @ FullRepoPath sys repo @ '' does not exist - has it been cloned?'')]), w1)
      else (case cerr of
              None \<Rightarrow>
                ((c\<lparr>doneCount := doneCount c + 1\<rparr>,
                  log @ [StartActivity (''Closing PR in '' @ FullRepoName repo),
                         Call_Stat (FullRepoPath sys repo) serr,
                         Call_ClosePullRequest (FullRepoPath sys repo) (Name dir) None,
                         EndWithSuccess (''Closing PR in '' @ FullRepoName repo)]), w2)
            | Some e \<Rightarrow>
                if is_NoPRFoundError e
                then ((c\<lparr>skippedCount := skippedCount c + 1\<rparr>,
                       log @ [StartActivity (''Closing PR in '' @ FullRepoName repo),
                              Call_Stat (FullRepoPath sys repo) serr,
                              Call_ClosePullRequest (FullRepoPath sys repo) (Name dir) (Some e),
                              EndWithWarning (''Closing PR in '' @ FullRepoName repo) e]), w2)
                else ((c\<lparr>errorCount := errorCount c + 1\<rparr>,
                       log @ [StartActivity (''Closing PR in '' @ FullRepoName repo),
                              Call_Stat (FullRepoPath sys repo) serr,
                              Call_ClosePullRequest (FullRepoPath sys repo) (Name dir) (Some e),
                              EndWithFailure (''Closing PR in '' @ FullRepoName repo) e]), w2)))"
  using assms by (simp add: Let_def split: option.splits error.splits)



lemma closeBody_step:
  assumes "closeBody sys dir repo ((c, log), w) = ((c', log'), w')"
  shows "c' = c\<lparr>doneCount := doneCount c + 1\<rparr>
         \<or> c' = c\<lparr>skippedCount := skippedCount c + 1\<rparr>
         \<or> c' = c\<lparr>errorCount := errorCount c + 1\<rparr>"
    and "filter is_StartActivity log' =
           filter is_StartActivity log @ [StartActivity (''Closing PR in '' @ FullRepoName repo)]"
    and "filter is_AskConfirm log' = filter is_AskConfirm log"
    and "filter is_summary log' = filter is_summary log"
proof -
  obtain serr w1 where st: "Stat sys (FullRepoPath sys repo) w = (serr, w1)"
    by (cases "Stat sys (FullRepoPath sys repo) w")
  obtain cerr w2 where cl: "ClosePullRequest sys (FullRepoPath sys repo) (Name dir) w1 = (cerr, w2)"
    by (cases "ClosePullRequest sys (FullRepoPath sys repo) (Name dir) w1")
  note u = assms [unfolded closeBody_unfold [OF st cl]]
  show "c' = c\<lparr>doneCount := doneCount c + 1\<rparr>
         \<or> c' = c\<lparr>skippedCount := skippedCount c + 1\<rparr>
         \<or> c' = c\<lparr>errorCount := errorCount c + 1\<rparr>"
    using u by (auto split: if_splits option.splits)
  show "filter is_StartActivity log' =
           filter is_StartActivity log @ [StartActivity (''Closing PR in '' @ FullRepoName repo)]"
    using u by (auto split: if_splits option.splits)
  show "filter is_AskConfirm log' = filter is_AskConfirm log"
    using u by (auto split: if_splits option.splits)
  show "filter is_summary log' = filter is_summary log"
    using u by (auto split: if_splits option.splits)
qed

lemma closeBody_total:
  assumes "closeBody sys dir repo ((c, log), w) = ((c', log'), w')"
  shows "total c' = total c + 1"
    and "doneCount c \<le> doneCount c'"
    and "skippedCount c \<le> skippedCount c'"
    and "errorCount c \<le> errorCount c'"
  using closeBody_step(1) [OF assms] by (auto simp: total_def)

lemma closeLoop_invariant:
  assumes "closeLoop sys dir repos ((c, log), w) = ((c', log'), w')"
  shows "total c' = total c + int (length repos)
       \<and> doneCount c \<le> doneCount c' \<and> skippedCount c \<le> skippedCount c'
       \<and> errorCount c \<le> errorCount c'
       \<and> filter is_StartActivity log' =
           filter is_StartActivity log
             @ map (\<lambda>repo. StartActivity (''Closing PR in '' @ FullRepoName repo)) repos
       \<and> filter is_AskConfirm log' = filter is_AskConfirm log
       \<and> filter is_summary log' = filter is_summary log"
  using assms
proof (induction repos arbitrary: c log w)
  case Nil
  then show ?case by simp
next
  case (Cons repo repos)
  obtain c1 log1 w1 where b: "closeBody sys dir repo ((c, log), w) = ((c1, log1), w1)"
    by (metis surj_pair)
  from Cons.prems b have "closeLoop sys dir repos ((c1, log1), w1) = ((c', log'), w')"
    by simp
  from Cons.IH [OF this] closeBody_total [OF b] closeBody_step(2-4) [OF b]
  show ?case by simp
qed

lemma runClose_loop:
  assumes "OpenCampaign sys w = (Inr dir, w0)"
    and "yesFlag \<or> fst (AskConfirm sys (''Close all PRs from the '' @ Name dir @ '' campaign?'') w0)"
  shows "runClose sys yesFlag w =
     (case closeLoop sys dir (Repos dir)
             ((\<lparr>doneCount = 0, skippedCount = 0, errorCount = 0\<rparr>,
               [StartActivity ''Reading campaign data'', EndWithSuccess ''Reading campaign data'']
                 @ (if yesFlag then []
                    else [Call_AskConfirm (''Close all PRs from the '' @ Name dir @ '' campaign?'') True])),
              (if yesFlag then w0
               else snd (AskConfirm sys (''Close all PRs from the '' @ Name dir @ '' campaign?'') w0))) of
        ((c, log), w') \<Rightarrow> ((Some c, log @ [summary c]), w'))"
  using assms by (auto simp: runClose_def Let_def split: prod.splits)

lemma runClose_declined:
  assumes "OpenCampaign sys w = (Inr dir, w0)"
    and "\<not> yesFlag"
    and "AskConfirm sys (''Close all PRs from the '' @ Name dir @ '' campaign?'') w0 = (False, w1)"
  shows "runClose sys yesFlag w =
           ((None, [StartActivity ''Reading campaign data'', EndWithSuccess ''Reading campaign data'',
                   Call_AskConfirm (''Close all PRs from the '' @ Name dir @ '' campaign?'') False]), w1)"
  using assms by (simp add: runClose_def Let_def)

lemma runClose_Some:
  assumes "runClose sys yesFlag w = ((Some c, log), w')"
  obtains dir w0 where "OpenCampaign sys w = (Inr dir, w0)"
    and "yesFlag \<or> fst (AskConfirm sys (''Close all PRs from the '' @ Name dir @ '' campaign?'') w0)"
  using assms by (auto simp: runClose_def Let_def split: prod.splits sum.splits if_splits)


lemma closeLoop_fold:
  "closeLoop sys dir repos s = fold (closeBody sys dir) repos s"
  by (induction repos arbitrary: s) simp_all



text \<open>
  Claim C2. When \<open>runClose\<close> has run its loop, the three counters add up to the number
  of repositories of the campaign and none is negative; the activities started are the
  reading of the campaign and then one per repository, in the order of the list. The loop
  applies its body to every element of the list in turn, and the body adds one to exactly
  one counter and leaves the other two as they are.
\<close>

theorem runClose_counts_every_repository:
  assumes "OpenCampaign sys w = (Inr dir, w0)"
    and "runClose sys yesFlag w = ((Some c, log), w')"
  shows "doneCount c + skippedCount c + errorCount c = int (length (Repos dir))
       \<and> 0 \<le> doneCount c \<and> 0 \<le> skippedCount c \<and> 0 \<le> errorCount c
       \<and> filter is_StartActivity log =
           StartActivity ''Reading campaign data''
             # map (\<lambda>repo. StartActivity (''Closing PR in '' @ FullRepoName repo)) (Repos dir)
       \<and> (\<forall>repos s. closeLoop sys dir repos s = fold (closeBody sys dir) repos s)
       \<and> (\<forall>repo c1 log1 w1 c2 log2 w2.
            closeBody sys dir repo ((c1, log1), w1) = ((c2, log2), w2) \<longrightarrow>
              c2 = c1\<lparr>doneCount := doneCount c1 + 1\<rparr>
              \<or> c2 = c1\<lparr>skippedCount := skippedCount c1 + 1\<rparr>
              \<or> c2 = c1\<lparr>errorCount := errorCount c1 + 1\<rparr>)"
proof -
  let ?q = "''Close all PRs from the '' @ Name dir @ '' campaign?''"
  let ?log0 = "[StartActivity ''Reading campaign data'', EndWithSuccess ''Reading campaign data'']
                 @ (if yesFlag then [] else [Call_AskConfirm ?q True])"
  let ?w0 = "if yesFlag then w0 else snd (AskConfirm sys ?q w0)"
  let ?c0 = "\<lparr>doneCount = 0, skippedCount = 0, errorCount = 0\<rparr>"
  from assms(2) obtain dir' w0' where o: "OpenCampaign sys w = (Inr dir', w0')"
    and y': "yesFlag \<or> fst (AskConfirm sys (''Close all PRs from the '' @ Name dir' @ '' campaign?'') w0')"
    by (rule runClose_Some)
  from o assms(1) have "dir' = dir" and "w0' = w0" by simp_all
  with y' have y: "yesFlag \<or> fst (AskConfirm sys ?q w0)" by simp
  obtain c1 log1 w1 where l: "closeLoop sys dir (Repos dir) ((?c0, ?log0), ?w0) = ((c1, log1), w1)"
    by (cases "closeLoop sys dir (Repos dir) ((?c0, ?log0), ?w0)") auto
  have "runClose sys yesFlag w = ((Some c1, log1 @ [summary c1]), w1)"
    unfolding runClose_loop [OF assms(1) y] l by simp
  with assms(2) have r: "c = c1" "log = log1 @ [summary c1]" by auto
  have s: "\<not> is_StartActivity (summary c1)" by (simp add: summary_def)
  note inv = closeLoop_invariant [OF l]
  have t: "total c1 = int (length (Repos dir))"
    using inv by (simp add: total_def)
  have sum: "doneCount c + skippedCount c + errorCount c = int (length (Repos dir))"
    using t r(1) by (simp add: total_def)
  have nonneg: "0 \<le> doneCount c \<and> 0 \<le> skippedCount c \<and> 0 \<le> errorCount c"
    using inv r(1) by simp
  have "filter is_StartActivity log1 =
          StartActivity ''Reading campaign data''
            # map (\<lambda>repo. StartActivity (''Closing PR in '' @ FullRepoName repo)) (Repos dir)"
    using inv by simp
  then have started: "filter is_StartActivity log =
          StartActivity ''Reading campaign data''
            # map (\<lambda>repo. StartActivity (''Closing PR in '' @ FullRepoName repo)) (Repos dir)"
    using r(2) s by simp
  have loop: "\<forall>repos s. closeLoop sys dir repos s = fold (closeBody sys dir) repos s"
    by (simp add: closeLoop_fold)
  have step: "\<forall>repo c1 log1 w1 c2 log2 w2.
            closeBody sys dir repo ((c1, log1), w1) = ((c2, log2), w2) \<longrightarrow>
              c2 = c1\<lparr>doneCount := doneCount c1 + 1\<rparr>
              \<or> c2 = c1\<lparr>skippedCount := skippedCount c1 + 1\<rparr>
              \<or> c2 = c1\<lparr>errorCount := errorCount c1 + 1\<rparr>"
    by (intro allI impI) (rule closeBody_step(1))
  from sum nonneg started loop step show ?thesis by (intro conjI) simp_all
qed

text \<open>
  The theorem at the example campaign, run with \<open>yesFlag\<close> set.
\<close>

theorem runClose_counts_every_repository_witness:
  "OpenCampaign example_system () = (Inr rename_foo, ())
   \<and> fst (fst (runClose example_system True ()))
       = Some \<lparr>doneCount = 1, skippedCount = 2, errorCount = 1\<rparr>
   \<and> (1::int) + 2 + 1 = int (length (Repos rename_foo))
   \<and> filter is_StartActivity (snd (fst (runClose example_system True ()))) =
       [StartActivity ''Reading campaign data'', StartActivity ''Closing PR in org/A'',
        StartActivity ''Closing PR in org/B'', StartActivity ''Closing PR in org/C'',
        StartActivity ''Closing PR in org/D'']"
  using runClose_counts_every_repository
    [of example_system "()" rename_foo "()" True
        "\<lparr>doneCount = 1, skippedCount = 2, errorCount = 1\<rparr>"
        "snd (fst (runClose example_system True ()))" "()"]
  by (simp add: runClose_def Let_def rename_foo_def example_system_def summary_def)

lemma closeLoop_cases:
  obtains c log w where "closeLoop sys dir repos s = ((c, log), w)"
  by (cases "closeLoop sys dir repos s") auto

text \<open>
  Claim C7. Let the campaign have been read. With \<open>yesFlag\<close> set, \<open>runClose\<close> never
  calls \<open>AskConfirm\<close> and is the loop over the repositories, started in the state the
  reading left, followed by the summary. With \<open>yesFlag\<close> not set and \<open>AskConfirm\<close>
  returning false, \<open>runClose\<close> returns right after the question: no activity is started
  for any repository, no counter exists, and no summary is logged.
\<close>

theorem runClose_confirmation_gate:
  assumes "OpenCampaign sys w = (Inr dir, w0)"
  shows "(yesFlag \<longrightarrow>
            \<not> list_ex is_AskConfirm (snd (fst (runClose sys yesFlag w)))
            \<and> runClose sys yesFlag w =
                (case closeLoop sys dir (Repos dir)
                        ((\<lparr>doneCount = 0, skippedCount = 0, errorCount = 0\<rparr>,
                          [StartActivity ''Reading campaign data'',
                           EndWithSuccess ''Reading campaign data'']), w0) of
                   ((c, log), w') \<Rightarrow> ((Some c, log @ [summary c]), w')))
       \<and> (\<not> yesFlag
            \<and> AskConfirm sys (''Close all PRs from the '' @ Name dir @ '' campaign?'') w0 = (False, w1)
          \<longrightarrow> runClose sys yesFlag w =
                ((None, [StartActivity ''Reading campaign data'',
                         EndWithSuccess ''Reading campaign data'',
                         Call_AskConfirm (''Close all PRs from the '' @ Name dir @ '' campaign?'')
                           False]), w1))"
proof (intro conjI impI)
  assume y: "yesFlag"
  let ?s0 = "((\<lparr>doneCount = 0, skippedCount = 0, errorCount = 0\<rparr>,
               [StartActivity ''Reading campaign data'',
                EndWithSuccess ''Reading campaign data'']), w0)"
  obtain c log w' where l: "closeLoop sys dir (Repos dir) ?s0 = ((c, log), w')"
    by (rule closeLoop_cases)
  have r: "runClose sys yesFlag w =
             (case closeLoop sys dir (Repos dir) ?s0 of
                ((c, log), w') \<Rightarrow> ((Some c, log @ [summary c]), w'))"
    using runClose_loop [OF assms, of yesFlag] y by simp
  then show "runClose sys yesFlag w =
             (case closeLoop sys dir (Repos dir) ?s0 of
                ((c, log), w') \<Rightarrow> ((Some c, log @ [summary c]), w'))" .
  have "filter is_AskConfirm log = []"
    using closeLoop_invariant [OF l] by simp
  moreover have "\<not> is_AskConfirm (summary c)"
    by (simp add: summary_def)
  ultimately have "filter is_AskConfirm (log @ [summary c]) = []"
    by simp
  then have "\<not> list_ex is_AskConfirm (log @ [summary c])"
    by (simp only: list_ex_iff filter_empty_conv) blast
  then show "\<not> list_ex is_AskConfirm (snd (fst (runClose sys yesFlag w)))"
    unfolding r l by simp
next
  assume "\<not> yesFlag
          \<and> AskConfirm sys (''Close all PRs from the '' @ Name dir @ '' campaign?'') w0 = (False, w1)"
  then have n: "\<not> yesFlag"
    and q: "AskConfirm sys (''Close all PRs from the '' @ Name dir @ '' campaign?'') w0 = (False, w1)"
    by blast+
  show "runClose sys yesFlag w =
                ((None, [StartActivity ''Reading campaign data'',
                         EndWithSuccess ''Reading campaign data'',
                         Call_AskConfirm (''Close all PRs from the '' @ Name dir @ '' campaign?'')
                           False]), w1)"
    by (rule runClose_declined [OF assms n q])
qed

text \<open>
  The theorem at the example campaign, with \<open>yesFlag\<close> set and with \<open>yesFlag\<close> not set
  and a user who declines.
\<close>

theorem runClose_confirmation_gate_witness:
  "OpenCampaign example_system () = (Inr rename_foo, ())
   \<and> \<not> list_ex is_AskConfirm (snd (fst (runClose example_system True ())))
   \<and> fst (fst (runClose example_system True ()))
       = Some \<lparr>doneCount = 1, skippedCount = 2, errorCount = 1\<rparr>
   \<and> AskConfirm example_system ''Close all PRs from the rename-foo campaign?'' () = (False, ())
   \<and> runClose example_system False () =
        ((None, [StartActivity ''Reading campaign data'',
                 EndWithSuccess ''Reading campaign data'',
                 Call_AskConfirm ''Close all PRs from the rename-foo campaign?'' False]), ())"
  using runClose_confirmation_gate [of example_system "()" rename_foo "()" True "()"]
    runClose_confirmation_gate [of example_system "()" rename_foo "()" False "()"]
  by (simp add: Let_def rename_foo_def example_system_def summary_def)

text \<open>
  Claim C8. When \<open>runClose\<close> has run its loop, what it logged holds exactly one summary
  line, which is its last event: with \<open>errorCount\<close> zero a call of \<open>Successf\<close> with
  \<open>doneCount\<close> tagged \<open>OK\<close> and \<open>skippedCount\<close> tagged \<open>skipped\<close>; otherwise a call
  of \<open>Warnf\<close> with these two and \<open>errorCount\<close> tagged \<open>errored\<close>.
\<close>

theorem runClose_summary_line:
  assumes "runClose sys yesFlag w = ((Some c, log), w')"
  shows "filter is_summary log = [summary c] \<and> log \<noteq> [] \<and> last log = summary c
       \<and> (errorCount c = 0 \<longrightarrow>
            summary c =
              Successf (''turbolift update-prs completed %s(%s, %s)'' @ [CHR 0x0A])
                [Normal, Green [IntV (doneCount c), StrV '' OK''],
                 Yellow [IntV (skippedCount c), StrV '' skipped'']])
       \<and> (errorCount c \<noteq> 0 \<longrightarrow>
            summary c =
              Warnf (''turbolift update-prs completed with %s %s(%s, %s, %s)'' @ [CHR 0x0A])
                [Red [StrV ''errors''], Normal, Green [IntV (doneCount c), StrV '' OK''],
                 Yellow [IntV (skippedCount c), StrV '' skipped''],
                 Red [IntV (errorCount c), StrV '' errored'']])"
proof -
  let ?q = "\<lambda>dir. ''Close all PRs from the '' @ Name dir @ '' campaign?''"
  from assms obtain dir w0 where o: "OpenCampaign sys w = (Inr dir, w0)"
    and y: "yesFlag \<or> fst (AskConfirm sys (?q dir) w0)"
    by (rule runClose_Some)
  let ?s0 = "((\<lparr>doneCount = 0, skippedCount = 0, errorCount = 0\<rparr>,
               [StartActivity ''Reading campaign data'', EndWithSuccess ''Reading campaign data'']
                 @ (if yesFlag then [] else [Call_AskConfirm (?q dir) True])),
              (if yesFlag then w0 else snd (AskConfirm sys (?q dir) w0)))"
  obtain c1 log1 w1 where l: "closeLoop sys dir (Repos dir) ?s0 = ((c1, log1), w1)"
    by (rule closeLoop_cases)
  have "runClose sys yesFlag w = ((Some c1, log1 @ [summary c1]), w1)"
    unfolding runClose_loop [OF o y] l by simp
  with assms have r: "c = c1" "log = log1 @ [summary c1]" by auto
  have "filter is_summary log1 = []"
    using closeLoop_invariant [OF l] by simp
  moreover have "is_summary (summary c1)"
    by (simp add: summary_def)
  ultimately have f: "filter is_summary log = [summary c]"
    using r by simp
  have "log \<noteq> []" and "last log = summary c"
    using r by simp_all
  with f show ?thesis
    by (simp add: summary_def)
qed

text \<open>
  The theorem at the example campaign, where one repository fails.
\<close>

theorem runClose_summary_line_witness:
  "fst (fst (runClose example_system True ()))
       = Some \<lparr>doneCount = 1, skippedCount = 2, errorCount = 1\<rparr>
   \<and> filter is_summary (snd (fst (runClose example_system True ()))) =
       [Warnf (''turbolift update-prs completed with %s %s(%s, %s, %s)'' @ [CHR 0x0A])
          [Red [StrV ''errors''], Normal, Green [IntV 1, StrV '' OK''],
           Yellow [IntV 2, StrV '' skipped''], Red [IntV 1, StrV '' errored'']]]"
  using runClose_summary_line
    [of example_system True "()" "\<lparr>doneCount = 1, skippedCount = 2, errorCount = 1\<rparr>"
        "snd (fst (runClose example_system True ()))" "()"]
  by (simp add: runClose_def Let_def rename_foo_def example_system_def summary_def)

end
